theory Spec2Isabelle
  imports Main "HOL-Library.Sublist" "HOL-Library.Multiset"
begin

section \<open>Safari history: visit records and the module state\<close>

text \<open>
  One row of the query in \<open>SafariHistory.run\<close>, kept as the dictionary the loader builds.
  The field \<open>id\<close> of the source is called \<open>item_id\<close> here (\<open>id\<close> is the identity
  function of HOL). The raw \<open>timestamp\<close> is whatever the store holds (Mac time); its
  type is left open as \<open>'t\<close>. \<open>redirect_source\<close> and \<open>redirect_destination\<close> are
  nullable columns.
\<close>

record 't visit =
  item_id :: int
  url :: string
  visit_id :: int
  timestamp :: 't
  isodate :: string
  redirect_source :: "int option"
  redirect_destination :: "int option"

text \<open>
  The observable effects of the module, in the order in which they happen:
  \<open>self.log.info\<close> with the two domains, \<open>self.log.warning\<close> with the number that
  \<open>%d\<close> prints, and \<open>self.detected.append\<close> with the appended record.
\<close>

datatype 't effect =
    Info string string
  | Warning int
  | Appended "'t visit"

fun is_diagnostic :: "'t effect \<Rightarrow> bool" where
  "is_diagnostic (Info a b) = True"
| "is_diagnostic (Warning n) = True"
| "is_diagnostic (Appended r) = False"

text \<open>
  The attributes of \<open>self\<close> that \<open>_find_injections\<close> and \<open>check_indicators\<close> touch.
  \<open>indicators\<close> is \<open>None\<close> when no indicator set is configured, otherwise its
  \<open>check_domain\<close> method. \<open>effects\<close> is the trace of log calls and appends so far.
\<close>

record 't module =
  results :: "'t visit list"
  detected :: "'t visit list"
  indicators :: "(string \<Rightarrow> bool) option"
  effects :: "'t effect list"

text \<open>The module as it is before \<open>check_indicators\<close> runs: nothing detected, nothing
  logged.\<close>

definition mk_module :: "'t visit list \<Rightarrow> (string \<Rightarrow> bool) option \<Rightarrow> 't module" where
  "mk_module rs ind = \<lparr> results = rs, detected = [], indicators = ind, effects = [] \<rparr>"

text \<open>
  The two helpers imported from \<open>mvt.common\<close> are not part of this file and are taken
  as parameters: \<open>URL_domain u\<close> stands for \<open>URL(u).domain\<close>, and
  \<open>convert_mactime_to_unix t\<close> for the \<open>datetime\<close> the helper returns, given as the
  number of microseconds since the Unix epoch (the resolution of a \<open>datetime\<close>).
\<close>

record 't helpers =
  URL_domain :: "string \<Rightarrow> string"
  convert_mactime_to_unix :: "'t \<Rightarrow> int"

section \<open>The Python primitives used by the detector\<close>

text \<open>\<open>str.lower\<close>, on the ASCII letters (the only ones that can become a character of
  the prefix \<open>http://\<close>).\<close>

definition lower_char :: "char \<Rightarrow> char" where
  "lower_char c =
     (case map_of (zip ''ABCDEFGHIJKLMNOPQRSTUVWXYZ'' ''abcdefghijklmnopqrstuvwxyz'') c of
        None \<Rightarrow> c
      | Some d \<Rightarrow> d)"

definition lower :: "string \<Rightarrow> string" where
  "lower s = map lower_char s"

definition startswith :: "string \<Rightarrow> string \<Rightarrow> bool" where
  "startswith s p = prefix p s"

text \<open>Truth value of a nullable integer: \<open>None\<close> and \<open>0\<close> are false.\<close>

fun truthy :: "int option \<Rightarrow> bool" where
  "truthy None = False"
| "truthy (Some n) = (n \<noteq> 0)"

text \<open>
  \<open>datetime - datetime\<close> is a \<open>timedelta\<close>, normalised by Python so that
  \<open>0 \<le> microseconds < 10^6\<close> and \<open>0 \<le> seconds < 86400\<close>; only \<open>days\<close> carries the sign.
\<close>

record timedelta =
  days :: int
  seconds :: int
  microseconds :: int

definition datetime_sub :: "int \<Rightarrow> int \<Rightarrow> timedelta" where
  "datetime_sub a b =
     (let d = a - b in
      \<lparr> days = d div 86400000000,
        seconds = (d mod 86400000000) div 1000000,
        microseconds = d mod 1000000 \<rparr>)"

section \<open>Chain analysis: \<open>_find_injections\<close>\<close>

text \<open>
  The body of the inner loop (lines 54 to 72) for one \<open>redirect\<close>. \<open>elapsed_ms\<close> is
  \<open>microseconds / 1000\<close>, a float in \<open>[0, 1000)\<close> whose only use is the \<open>%d\<close> of the
  warning, which drops the fraction; the model keeps the printed integer.
\<close>

definition redirect_step ::
  "'t helpers \<Rightarrow> 't visit \<Rightarrow> string \<Rightarrow> 't visit \<Rightarrow> 't module \<Rightarrow> 't module" where
  "redirect_step h result origin_domain redirect s =
     (if Some (visit_id redirect) \<noteq> redirect_destination result then s
      else
        let redirect_domain = URL_domain h (url redirect) in
        if origin_domain = redirect_domain then s
        else
          let s1 = s\<lparr>effects := effects s @ [Info origin_domain redirect_domain]\<rparr>;
              redirect_time = convert_mactime_to_unix h (timestamp redirect);
              origin_time = convert_mactime_to_unix h (timestamp result);
              elapsed_time = datetime_sub redirect_time origin_time;
              elapsed_ms = microseconds elapsed_time div 1000
          in if seconds elapsed_time = 0
             then s1\<lparr>effects := effects s1 @ [Warning elapsed_ms]\<rparr>
             else s1)"

text \<open>The inner \<open>for redirect in self.results\<close>.\<close>

fun redirect_loop ::
  "'t helpers \<Rightarrow> 't visit \<Rightarrow> string \<Rightarrow> 't visit list \<Rightarrow> 't module \<Rightarrow> 't module" where
  "redirect_loop h result origin_domain [] s = s"
| "redirect_loop h result origin_domain (redirect # rest) s =
     redirect_loop h result origin_domain rest (redirect_step h result origin_domain redirect s)"

text \<open>The body of the outer loop (lines 42 to 72) for one \<open>result\<close>.\<close>

definition origin_step :: "'t helpers \<Rightarrow> 't visit \<Rightarrow> 't module \<Rightarrow> 't module" where
  "origin_step h result s =
     (if \<not> startswith (lower (url result)) ''http://'' then s
      else if \<not> truthy (redirect_destination result) then s
      else
        let origin_domain = URL_domain h (url result)
        in redirect_loop h result origin_domain (results s) s)"

text \<open>The outer \<open>for result in self.results\<close>.\<close>

fun origin_loop :: "'t helpers \<Rightarrow> 't visit list \<Rightarrow> 't module \<Rightarrow> 't module" where
  "origin_loop h [] s = s"
| "origin_loop h (result # rest) s = origin_loop h rest (origin_step h result s)"

definition find_injections :: "'t helpers \<Rightarrow> 't module \<Rightarrow> 't module" where
  "find_injections h s = origin_loop h (results s) s"

section \<open>Indicator matching: \<open>check_indicators\<close>\<close>

text \<open>The loop of lines 80 to 82, for a configured \<open>check_domain\<close>.\<close>

fun indicator_loop :: "(string \<Rightarrow> bool) \<Rightarrow> 't visit list \<Rightarrow> 't module \<Rightarrow> 't module" where
  "indicator_loop check_domain [] s = s"
| "indicator_loop check_domain (result # rest) s =
     indicator_loop check_domain rest
       (if check_domain (url result)
        then s\<lparr>detected := detected s @ [result], effects := effects s @ [Appended result]\<rparr>
        else s)"

definition check_indicators :: "'t helpers \<Rightarrow> 't module \<Rightarrow> 't module" where
  "check_indicators h s =
     (let s1 = find_injections h s in
      case indicators s1 of
        None \<Rightarrow> s1
      | Some check_domain \<Rightarrow> indicator_loop check_domain (results s1) s1)"

section \<open>An instance of the helpers for the scenarios\<close>

text \<open>
  Used only to run the model on concrete histories: the domain is the host between the
  scheme and the first slash, and raw timestamps are Mac time in microseconds
  (seconds since 2001-01-01, so 978307200 seconds after the Unix epoch).
\<close>

definition scenario_domain :: "string \<Rightarrow> string" where
  "scenario_domain u =
     takeWhile (\<lambda>c. c \<noteq> CHR ''/'')
       (if prefix ''http://'' (lower u) then drop 7 (lower u)
        else if prefix ''https://'' (lower u) then drop 8 (lower u)
        else lower u)"

definition scenario_helpers :: "int helpers" where
  "scenario_helpers =
     \<lparr> URL_domain = scenario_domain,
       convert_mactime_to_unix = (\<lambda>t. t + 978307200000000) \<rparr>"

definition mk_visit :: "string \<Rightarrow> int \<Rightarrow> int \<Rightarrow> int option \<Rightarrow> int visit" where
  "mk_visit u v t d =
     \<lparr> item_id = v, url = u, visit_id = v, timestamp = t, isodate = [],
       redirect_source = None, redirect_destination = d \<rparr>"

section \<open>What one step and one pass emit\<close>

text \<open>
  The diagnostics of a step, read off the step itself by running it on a module with an
  empty trace: those of one origin/redirect pair, and those of one origin over a whole
  sequence. They are used to state what the loops add to the trace.
\<close>

definition pair_diagnostics :: "'t helpers \<Rightarrow> 't visit \<Rightarrow> string \<Rightarrow> 't visit \<Rightarrow> 't effect list" where
  "pair_diagnostics h result origin_domain redirect =
     effects (redirect_step h result origin_domain redirect (mk_module [] None))"

definition origin_diagnostics :: "'t helpers \<Rightarrow> 't visit list \<Rightarrow> 't visit \<Rightarrow> 't effect list" where
  "origin_diagnostics h rs result = effects (origin_step h result (mk_module rs None))"

section \<open>The loops only append to the trace\<close>

lemma redirect_step_appends:
  "redirect_step h r od q s = s\<lparr>effects := effects s @ pair_diagnostics h r od q\<rparr>"
  by (simp add: redirect_step_def pair_diagnostics_def mk_module_def Let_def)

lemma pair_diagnostics_are_diagnostics:
  "e \<in> set (pair_diagnostics h r od q) \<Longrightarrow> is_diagnostic e"
  by (auto simp: redirect_step_def pair_diagnostics_def mk_module_def Let_def split: if_splits)

lemma redirect_loop_appends:
  "redirect_loop h r od qs s =
     s\<lparr>effects := effects s @ concat (map (pair_diagnostics h r od) qs)\<rparr>"
proof (induction qs arbitrary: s)
  case Nil
  show ?case by simp
next
  case (Cons q qs)
  show ?case
    by (simp add: Cons.IH redirect_step_appends [of h r od q s])
qed

lemma origin_diagnostics_unfold:
  "origin_diagnostics h rs r =
     (if startswith (lower (url r)) ''http://'' \<and> truthy (redirect_destination r)
      then concat (map (pair_diagnostics h r (URL_domain h (url r))) rs)
      else [])"
  by (simp add: origin_diagnostics_def origin_step_def redirect_loop_appends mk_module_def)

lemma origin_step_appends:
  "origin_step h r s = s\<lparr>effects := effects s @ origin_diagnostics h (results s) r\<rparr>"
  by (simp add: origin_diagnostics_unfold) (simp add: origin_step_def redirect_loop_appends)

lemma origin_diagnostics_are_diagnostics:
  "e \<in> set (origin_diagnostics h rs r) \<Longrightarrow> is_diagnostic e"
  by (auto simp: origin_diagnostics_unfold pair_diagnostics_are_diagnostics split: if_splits)

lemma origin_loop_appends:
  "origin_loop h os s =
     s\<lparr>effects := effects s @ concat (map (origin_diagnostics h (results s)) os)\<rparr>"
proof (induction os arbitrary: s)
  case Nil
  show ?case by simp
next
  case (Cons r os)
  show ?case
    by (simp add: Cons.IH origin_step_appends [of h r s])
qed

lemma find_injections_appends:
  "find_injections h s =
     s\<lparr>effects := effects s @ concat (map (origin_diagnostics h (results s)) (results s))\<rparr>"
  by (simp add: find_injections_def origin_loop_appends)

lemma indicator_loop_appends:
  "indicator_loop chk rs s =
     s\<lparr>detected := detected s @ filter (\<lambda>r. chk (url r)) rs,
       effects := effects s @ map Appended (filter (\<lambda>r. chk (url r)) rs)\<rparr>"
  by (induction rs arbitrary: s) simp_all

lemma mset_concat_map:
  "mset (concat (map f xs)) = (\<Sum>x\<in>#mset xs. mset (f x))"
  by (induction xs) simp_all

lemma mset_origin_diagnostics:
  "mset ys = mset xs \<Longrightarrow> mset (origin_diagnostics h ys r) = mset (origin_diagnostics h xs r)"
  by (simp add: origin_diagnostics_unfold mset_concat_map)

lemma sorted_distinct_permutation:
  fixes xs ys :: "('t::linorder) visit list"
  assumes "mset ys = mset xs" "sorted (map timestamp xs)" "sorted (map timestamp ys)"
    "distinct (map timestamp xs)"
  shows "ys = xs"
proof -
  have m: "mset (map timestamp ys) = mset (map timestamp xs)"
    using assms(1) by simp
  have "sort (map timestamp xs) = map timestamp ys"
    using m assms(3) by (rule properties_for_sort)
  moreover have "sort (map timestamp xs) = map timestamp xs"
    using assms(2) by (simp add: sorted_sort_id)
  ultimately have eq: "map timestamp ys = map timestamp xs" by simp
  have "set ys = set xs" using assms(1) by (rule mset_eq_setD)
  moreover have "inj_on timestamp (set xs)"
    using assms(4) by (simp add: distinct_map)
  ultimately have "inj_on timestamp (set ys \<union> set xs)" by simp
  then show ?thesis using eq by (simp add: inj_on_map_eq_map)
qed

text \<open>
  A concatenation only depends on the elements that contribute something, in their
  order; and a sequence that stays ascending by timestamp under a permutation keeps the
  order of any of its records whose timestamps are pairwise distinct.
\<close>

lemma pair_diagnostics_nonempty_iff:
  "pair_diagnostics h r od q \<noteq> [] \<longleftrightarrow>
     Some (visit_id q) = redirect_destination r \<and> URL_domain h (url q) \<noteq> od"
  by (auto simp: pair_diagnostics_def redirect_step_def mk_module_def Let_def)

lemma concat_map_filter_nonempty:
  "concat (map f (filter (\<lambda>x. f x \<noteq> []) xs)) = concat (map f xs)"
  by (induction xs) simp_all

lemma sorted_filter_permutation:
  fixes xs ys :: "('t::linorder) visit list"
  assumes "mset ys = mset xs" "sorted (map timestamp xs)" "sorted (map timestamp ys)"
    "distinct (map timestamp (filter P xs))"
  shows "filter P ys = filter P xs"
proof (rule sorted_distinct_permutation)
  show "mset (filter P ys) = mset (filter P xs)"
    using assms(1) by simp
  show "sorted (map timestamp (filter P xs))"
    using assms(2) by (rule sorted_filter)
  show "sorted (map timestamp (filter P ys))"
    using assms(3) by (rule sorted_filter)
  show "distinct (map timestamp (filter P xs))"
    by (rule assms(4))
qed

lemma concat_map_same_emitters:
  assumes "filter (\<lambda>x. f x \<noteq> []) ys = filter (\<lambda>x. f x \<noteq> []) xs"
  shows "concat (map f ys) = concat (map f xs)"
proof -
  have "concat (map f ys) = concat (map f (filter (\<lambda>x. f x \<noteq> []) ys))"
    by (rule concat_map_filter_nonempty [symmetric])
  also have "\<dots> = concat (map f (filter (\<lambda>x. f x \<noteq> []) xs))"
    by (simp only: assms)
  also have "\<dots> = concat (map f xs)"
    by (rule concat_map_filter_nonempty)
  finally show ?thesis .
qed

section \<open>One origin/redirect pair\<close>

lemma pair_diagnostics_no_match:
  "Some (visit_id q) \<noteq> redirect_destination r \<Longrightarrow> pair_diagnostics h r od q = []"
  by (simp add: pair_diagnostics_def redirect_step_def mk_module_def)

lemma pair_diagnostics_same_domain:
  "URL_domain h (url q) = od \<Longrightarrow> pair_diagnostics h r od q = []"
  by (auto simp: pair_diagnostics_def redirect_step_def mk_module_def)

lemma distinct_visit_id_unique:
  assumes "distinct (map visit_id rs)" "q \<in> set rs" "q' \<in> set rs" "visit_id q' = visit_id q"
  shows "q' = q"
proof -
  have "inj_on visit_id (set rs)" using assms(1) by (simp add: distinct_map)
  then show ?thesis using assms(2-4) by (auto dest: inj_onD)
qed

lemma seconds_zero_iff:
  "((d::int) mod 86400000000) div 1000000 = 0 \<longleftrightarrow> d mod 86400000000 < 1000000"
proof -
  have "0 \<le> d mod 86400000000" by simp
  then show ?thesis by (auto simp: zdiv_eq_0_iff)
qed

text \<open>
  A pair that passes both tests (the redirect is the one referenced and its domain
  differs) always logs the informational line; the warning follows exactly when the
  \<open>seconds\<close> field of the \<open>timedelta\<close> is zero, that is when the elapsed time modulo
  one day is below one second.
\<close>

lemma flagged_pair_diagnostics:
  assumes "Some (visit_id q) = redirect_destination r"
    and "URL_domain h (url q) \<noteq> od"
  shows "pair_diagnostics h r od q =
     Info od (URL_domain h (url q)) #
     (if (convert_mactime_to_unix h (timestamp q) - convert_mactime_to_unix h (timestamp r))
           mod 86400000000 < 1000000
      then [Warning
             ((convert_mactime_to_unix h (timestamp q) - convert_mactime_to_unix h (timestamp r))
                mod 1000000 div 1000)]
      else [])"
  using assms
  by (auto simp: pair_diagnostics_def redirect_step_def mk_module_def datetime_sub_def Let_def
      seconds_zero_iff)

text \<open>
  For an elapsed time from zero up to one day the test of line 71 is the test "under one
  second".
\<close>

lemma flagged_pair_within_a_day:
  assumes "Some (visit_id q) = redirect_destination r"
    and "URL_domain h (url q) \<noteq> od"
    and "0 \<le> convert_mactime_to_unix h (timestamp q) - convert_mactime_to_unix h (timestamp r)"
    and "convert_mactime_to_unix h (timestamp q) - convert_mactime_to_unix h (timestamp r)
           < 86400000000"
  shows "(\<exists>n. Warning n \<in> set (pair_diagnostics h r od q)) \<longleftrightarrow>
     convert_mactime_to_unix h (timestamp q) - convert_mactime_to_unix h (timestamp r) < 1000000"
proof -
  have "(convert_mactime_to_unix h (timestamp q) - convert_mactime_to_unix h (timestamp r))
          mod 86400000000
      = convert_mactime_to_unix h (timestamp q) - convert_mactime_to_unix h (timestamp r)"
    using assms(3,4) by simp
  then show ?thesis
    by (simp add: flagged_pair_diagnostics [OF assms(1,2)])
qed

lemma https_is_not_plain_http:
  "startswith (lower u) ''https://'' \<Longrightarrow> \<not> startswith (lower u) ''http://''"
  by (auto simp: startswith_def prefix_def)

section \<open>Evaluation on concrete histories\<close>

lemmas scenario_defs =
  find_injections_def check_indicators_def origin_step_def redirect_step_def
  mk_module_def mk_visit_def scenario_helpers_def scenario_domain_def
  lower_def lower_char_def startswith_def datetime_sub_def Let_def

section \<open>Claims about chain analysis\<close>

text \<open>
  C1. The claim: for a flagged cross-domain pair the warning is logged if and only if
  the elapsed time between origin and redirect is under one second. The code tests the
  \<open>seconds\<close> field of the \<open>timedelta\<close>, which leaves the days out: for a redirect
  recorded one day and 0.3 seconds after its origin (86400300000 microseconds) the
  module still logs "Redirect took less than a second! (300 milliseconds)".
\<close>

theorem day_later_redirect_warns:
  "convert_mactime_to_unix scenario_helpers 86400300000
     - convert_mactime_to_unix scenario_helpers 0 = 86400300000
   \<and> effects (find_injections scenario_helpers
        (mk_module [mk_visit ''http://a.com'' 1 0 (Some 2),
                    mk_visit ''https://b.com'' 2 86400300000 None] None))
     = [Info ''a.com'' ''b.com'', Warning 300]"
  by (simp add: scenario_defs)

text \<open>
  C2. A record whose URL does not start with \<open>http://\<close> after lower-casing, or that
  has no redirect destination, is passed over: its step leaves the module as it is, and
  the outer loop ends in the same state as the loop without that record.
\<close>

theorem skipped_origin_emits_nothing:
  assumes "\<not> startswith (lower (url r)) ''http://'' \<or> redirect_destination r = None"
  shows "origin_step h r s = s
    \<and> origin_loop h (pre @ r # post) s = origin_loop h (pre @ post) s"
proof -
  have none: "origin_diagnostics h rs r = []" for rs
    using assms by (auto simp: origin_diagnostics_unfold)
  have "origin_step h r s = s"
    by (simp add: origin_step_appends none)
  moreover have "origin_loop h (pre @ r # post) s = origin_loop h (pre @ post) s"
    by (simp add: origin_loop_appends none)
  ultimately show ?thesis by simp
qed

text \<open>
  The witness: an upper-case \<open>HTTPS://\<close> visit with a redirect to another domain is
  passed over, while the same visit written \<open>HTTP://\<close> is not.
\<close>

theorem skipped_origin_emits_nothing_witness:
  "startswith (lower ''HTTPS://a.com/'') ''https://''
   \<and> origin_step scenario_helpers (mk_visit ''HTTPS://a.com/'' 1 0 (Some 2))
        (mk_module [mk_visit ''HTTPS://a.com/'' 1 0 (Some 2),
                    mk_visit ''https://b.com/'' 2 300000 None] None)
     = mk_module [mk_visit ''HTTPS://a.com/'' 1 0 (Some 2),
                  mk_visit ''https://b.com/'' 2 300000 None] None
   \<and> origin_step scenario_helpers (mk_visit ''HTTP://a.com/'' 1 0 (Some 2))
        (mk_module [mk_visit ''HTTP://a.com/'' 1 0 (Some 2),
                    mk_visit ''https://b.com/'' 2 300000 None] None)
     \<noteq> mk_module [mk_visit ''HTTP://a.com/'' 1 0 (Some 2),
                  mk_visit ''https://b.com/'' 2 300000 None] None"
proof -
  have a: "\<not> startswith (lower (url (mk_visit ''HTTPS://a.com/'' 1 0 (Some 2)))) ''http://''
      \<or> redirect_destination (mk_visit ''HTTPS://a.com/'' 1 0 (Some 2)) = None"
    by (simp add: scenario_defs)
  have b: "startswith (lower ''HTTPS://a.com/'') ''https://''"
    by (simp add: scenario_defs)
  have c: "origin_step scenario_helpers (mk_visit ''HTTP://a.com/'' 1 0 (Some 2))
        (mk_module [mk_visit ''HTTP://a.com/'' 1 0 (Some 2),
                    mk_visit ''https://b.com/'' 2 300000 None] None)
     \<noteq> mk_module [mk_visit ''HTTP://a.com/'' 1 0 (Some 2),
                  mk_visit ''https://b.com/'' 2 300000 None] None"
    by (simp add: scenario_defs)
  show ?thesis
    using skipped_origin_emits_nothing [OF a, of scenario_helpers _ "[]" "[]"] b c by simp
qed

text \<open>
  C3. When the referenced redirect has the same domain as the origin, the step for that
  pair changes nothing; with unique visit ids in the sequence the whole scan for that
  origin changes nothing.
\<close>

theorem same_domain_redirect_emits_nothing:
  assumes "Some (visit_id q) = redirect_destination r"
    and "URL_domain h (url q) = URL_domain h (url r)"
  shows "redirect_step h r (URL_domain h (url r)) q s = s
    \<and> (q \<in> set (results s) \<and> distinct (map visit_id (results s)) \<longrightarrow> origin_step h r s = s)"
proof -
  have pair: "pair_diagnostics h r (URL_domain h (url r)) q = []"
    using assms(2) by (rule pair_diagnostics_same_domain)
  have step: "redirect_step h r (URL_domain h (url r)) q s = s"
    by (simp add: redirect_step_appends pair)
  have origin: "origin_step h r s = s"
    if mem: "q \<in> set (results s)" and dist: "distinct (map visit_id (results s))"
  proof -
    have "pair_diagnostics h r (URL_domain h (url r)) q' = []" if q': "q' \<in> set (results s)" for q'
    proof (cases "Some (visit_id q') = redirect_destination r")
      case True
      have "Some (visit_id q') = Some (visit_id q)"
        unfolding True assms(1) ..
      then have "visit_id q' = visit_id q" by simp
      with dist mem q' have "q' = q" by (rule distinct_visit_id_unique)
      then show ?thesis using pair by simp
    next
      case False
      then show ?thesis by (rule pair_diagnostics_no_match)
    qed
    then have "origin_diagnostics h (results s) r = []"
      by (simp add: origin_diagnostics_unfold)
    then show ?thesis by (simp add: origin_step_appends)
  qed
  show ?thesis using step origin by blast
qed

text \<open>
  The witness is scenario A of the specification: \<open>http://a.com\<close> redirected to
  \<open>https://a.com\<close> half a second later.
\<close>

theorem same_domain_redirect_emits_nothing_witness:
  "origin_step scenario_helpers (mk_visit ''http://a.com'' 1 0 (Some 2))
     (mk_module [mk_visit ''http://a.com'' 1 0 (Some 2),
                 mk_visit ''https://a.com'' 2 500000 None] None)
   = mk_module [mk_visit ''http://a.com'' 1 0 (Some 2),
                mk_visit ''https://a.com'' 2 500000 None] None
   \<and> startswith (lower ''http://a.com'') ''http://''
   \<and> scenario_domain ''https://a.com'' = scenario_domain ''http://a.com''"
proof -
  let ?r = "mk_visit ''http://a.com'' 1 0 (Some 2)"
  let ?q = "mk_visit ''https://a.com'' 2 500000 None"
  let ?s = "mk_module [?r, ?q] None"
  have a: "Some (visit_id ?q) = redirect_destination ?r"
    by (simp add: mk_visit_def)
  have b: "URL_domain scenario_helpers (url ?q) = URL_domain scenario_helpers (url ?r)"
    by (simp add: scenario_defs)
  have c: "?q \<in> set (results ?s) \<and> distinct (map visit_id (results ?s))"
    by (simp add: mk_module_def mk_visit_def)
  have d: "startswith (lower ''http://a.com'') ''http://''
     \<and> scenario_domain ''https://a.com'' = scenario_domain ''http://a.com''"
    by (simp add: scenario_defs)
  show ?thesis
    using same_domain_redirect_emits_nothing [OF a b, of ?s] c d by blast
qed

text \<open>
  C4. When no record of the sequence has the visit id an origin refers to, the step for
  that origin changes nothing (the scan only takes its \<open>continue\<close> branch, so there is
  no failure either), and the outer loop ends in the same state as the loop over the
  other records.
\<close>

theorem dangling_redirect_emits_nothing:
  assumes "\<forall>q\<in>set (results s). Some (visit_id q) \<noteq> redirect_destination r"
  shows "origin_step h r s = s
    \<and> origin_loop h (pre @ r # post) s = origin_loop h (pre @ post) s"
proof -
  have "pair_diagnostics h r od q = []" if "q \<in> set (results s)" for q od
    using assms that by (simp add: pair_diagnostics_no_match)
  then have none: "origin_diagnostics h (results s) r = []"
    by (simp add: origin_diagnostics_unfold)
  have "origin_step h r s = s"
    by (simp add: origin_step_appends none)
  moreover have "origin_loop h (pre @ r # post) s = origin_loop h (pre @ post) s"
    by (simp add: origin_loop_appends none)
  ultimately show ?thesis by simp
qed

text \<open>
  The witness: the first origin refers to the absent visit 9; the later pair
  \<open>c.com\<close> to \<open>d.com\<close> is still reported.
\<close>

theorem dangling_redirect_emits_nothing_witness:
  "effects (find_injections scenario_helpers
      (mk_module [mk_visit ''http://a.com'' 1 0 (Some 9),
                  mk_visit ''http://c.com'' 3 100000 (Some 4),
                  mk_visit ''https://d.com'' 4 400000 None] None))
   = [Info ''c.com'' ''d.com'', Warning 300]
   \<and> origin_step scenario_helpers (mk_visit ''http://a.com'' 1 0 (Some 9))
       (mk_module [mk_visit ''http://a.com'' 1 0 (Some 9),
                  mk_visit ''http://c.com'' 3 100000 (Some 4),
                  mk_visit ''https://d.com'' 4 400000 None] None)
     = mk_module [mk_visit ''http://a.com'' 1 0 (Some 9),
                  mk_visit ''http://c.com'' 3 100000 (Some 4),
                  mk_visit ''https://d.com'' 4 400000 None] None"
proof -
  let ?r = "mk_visit ''http://a.com'' 1 0 (Some 9)"
  let ?post = "[mk_visit ''http://c.com'' 3 100000 (Some 4),
                mk_visit ''https://d.com'' 4 400000 None]"
  let ?s = "mk_module (?r # ?post) None"
  have a: "\<forall>q\<in>set (results ?s). Some (visit_id q) \<noteq> redirect_destination ?r"
    by (simp add: mk_module_def mk_visit_def)
  have b: "effects (origin_loop scenario_helpers ([] @ ?post) ?s)
     = [Info ''c.com'' ''d.com'', Warning 300]"
    by (simp add: scenario_defs)
  have c: "find_injections scenario_helpers ?s = origin_loop scenario_helpers ([] @ ?r # ?post) ?s"
    by (simp add: find_injections_def mk_module_def)
  show ?thesis
    using dangling_redirect_emits_nothing [OF a, of scenario_helpers "[]" ?post] b c
    by simp
qed

text \<open>
  C10. A redirect destination of 0 is false in the test of line 47, so the record is
  passed over exactly as one without destination, whatever the sequence holds.
\<close>

theorem falsy_zero_destination_is_skipped:
  assumes "redirect_destination r = Some 0"
  shows "origin_step h r s = s
    \<and> origin_step h r s = origin_step h (r\<lparr>redirect_destination := None\<rparr>) s"
  using assms by (simp add: origin_step_def)

text \<open>
  The witness: visit 0 exists and lies on another domain 0.3 seconds later; the origin
  that refers to it is passed over, while the same history with visit id 2 is flagged.
\<close>

theorem falsy_zero_destination_is_skipped_witness:
  "origin_step scenario_helpers (mk_visit ''http://a.com'' 1 0 (Some 0))
     (mk_module [mk_visit ''http://a.com'' 1 0 (Some 0),
                 mk_visit ''https://b.com'' 0 300000 None] None)
   = mk_module [mk_visit ''http://a.com'' 1 0 (Some 0),
                mk_visit ''https://b.com'' 0 300000 None] None
   \<and> visit_id (mk_visit ''https://b.com'' 0 300000 None) = 0
   \<and> effects (origin_step scenario_helpers (mk_visit ''http://a.com'' 1 0 (Some 2))
       (mk_module [mk_visit ''http://a.com'' 1 0 (Some 2),
                   mk_visit ''https://b.com'' 2 300000 None] None))
     = [Info ''a.com'' ''b.com'', Warning 300]"
proof -
  have a: "redirect_destination (mk_visit ''http://a.com'' 1 0 (Some 0)) = Some 0"
    by (simp add: mk_visit_def)
  have b: "visit_id (mk_visit ''https://b.com'' 0 300000 None) = 0"
    by (simp add: mk_visit_def)
  have c: "effects (origin_step scenario_helpers (mk_visit ''http://a.com'' 1 0 (Some 2))
       (mk_module [mk_visit ''http://a.com'' 1 0 (Some 2),
                   mk_visit ''https://b.com'' 2 300000 None] None))
     = [Info ''a.com'' ''b.com'', Warning 300]"
    by (simp add: scenario_defs)
  show ?thesis
    using falsy_zero_destination_is_skipped [OF a, of scenario_helpers] b c by simp
qed

section \<open>Claims about the pass as a whole\<close>

text \<open>
  C8. Chain analysis leaves \<open>results\<close> and \<open>detected\<close> as they are: the module after
  \<open>_find_injections\<close> is the module before it with diagnostics added at the end of the
  trace, and nothing else.
\<close>

theorem find_injections_only_logs:
  "results (find_injections h s) = results s
   \<and> detected (find_injections h s) = detected s
   \<and> (\<exists>ds. find_injections h s = s\<lparr>effects := effects s @ ds\<rparr>
          \<and> (\<forall>e\<in>set ds. is_diagnostic e))"
proof -
  let ?ds = "concat (map (origin_diagnostics h (results s)) (results s))"
  have "find_injections h s = s\<lparr>effects := effects s @ ?ds\<rparr>"
    by (rule find_injections_appends)
  moreover have "\<forall>e\<in>set ?ds. is_diagnostic e"
    by (auto simp: origin_diagnostics_are_diagnostics)
  ultimately have "\<exists>ds. find_injections h s = s\<lparr>effects := effects s @ ds\<rparr>
          \<and> (\<forall>e\<in>set ds. is_diagnostic e)" by blast
  then show ?thesis by (simp add: find_injections_appends)
qed

text \<open>
  The witness is scenario B of the specification: one informational line and one
  warning of 300 milliseconds, both collections untouched.
\<close>

theorem find_injections_only_logs_witness:
  "find_injections scenario_helpers
      (mk_module [mk_visit ''http://a.com'' 1 0 (Some 2),
                  mk_visit ''https://b.com'' 2 300000 None] None)
   = (mk_module [mk_visit ''http://a.com'' 1 0 (Some 2),
                 mk_visit ''https://b.com'' 2 300000 None] None)
       \<lparr>effects := [Info ''a.com'' ''b.com'', Warning 300]\<rparr>
   \<and> results (find_injections scenario_helpers
      (mk_module [mk_visit ''http://a.com'' 1 0 (Some 2),
                  mk_visit ''https://b.com'' 2 300000 None] None))
     = [mk_visit ''http://a.com'' 1 0 (Some 2), mk_visit ''https://b.com'' 2 300000 None]
   \<and> detected (find_injections scenario_helpers
      (mk_module [mk_visit ''http://a.com'' 1 0 (Some 2),
                  mk_visit ''https://b.com'' 2 300000 None] None)) = []"
proof -
  let ?rs = "[mk_visit ''http://a.com'' 1 0 (Some 2), mk_visit ''https://b.com'' 2 300000 None]"
  let ?s = "mk_module ?rs None"
  have a: "find_injections scenario_helpers ?s
     = ?s\<lparr>effects := [Info ''a.com'' ''b.com'', Warning 300]\<rparr>"
    by (simp add: scenario_defs)
  have b: "results ?s = ?rs" "detected ?s = []"
    by (simp_all add: mk_module_def)
  from find_injections_only_logs [of scenario_helpers ?s]
  have c: "results (find_injections scenario_helpers ?s) = results ?s"
    and d: "detected (find_injections scenario_helpers ?s) = detected ?s"
    by blast+
  have "results (find_injections scenario_helpers ?s) = ?rs"
    using c b(1) by (simp only:)
  moreover have "detected (find_injections scenario_helpers ?s) = []"
    using d b(2) by (simp only:)
  ultimately show ?thesis using a by (intro conjI)
qed

text \<open>
  C9. The claim, read on the log as it is written: a copy of a timestamp-ordered
  history, permuted and sorted again by timestamp, gives the identical diagnostics. Two
  origins that both produce diagnostics and have equal timestamps may change places in
  such a copy, and their lines then come out in the other order.
\<close>

theorem tied_timestamps_reorder_diagnostics:
  "sorted (map timestamp [mk_visit ''http://a.com'' 1 1000000 (Some 3),
                          mk_visit ''http://b.com'' 2 1000000 (Some 4),
                          mk_visit ''https://x.com'' 3 1300000 None,
                          mk_visit ''https://y.com'' 4 6000000 None])
   \<and> sorted (map timestamp [mk_visit ''http://b.com'' 2 1000000 (Some 4),
                            mk_visit ''http://a.com'' 1 1000000 (Some 3),
                            mk_visit ''https://x.com'' 3 1300000 None,
                            mk_visit ''https://y.com'' 4 6000000 None])
   \<and> mset [mk_visit ''http://b.com'' 2 1000000 (Some 4),
            mk_visit ''http://a.com'' 1 1000000 (Some 3),
            mk_visit ''https://x.com'' 3 1300000 None,
            mk_visit ''https://y.com'' 4 6000000 None]
     = mset [mk_visit ''http://a.com'' 1 1000000 (Some 3),
             mk_visit ''http://b.com'' 2 1000000 (Some 4),
             mk_visit ''https://x.com'' 3 1300000 None,
             mk_visit ''https://y.com'' 4 6000000 None]
   \<and> effects (find_injections scenario_helpers
        (mk_module [mk_visit ''http://a.com'' 1 1000000 (Some 3),
                    mk_visit ''http://b.com'' 2 1000000 (Some 4),
                    mk_visit ''https://x.com'' 3 1300000 None,
                    mk_visit ''https://y.com'' 4 6000000 None] None))
     = [Info ''a.com'' ''x.com'', Warning 300, Info ''b.com'' ''y.com'']
   \<and> effects (find_injections scenario_helpers
        (mk_module [mk_visit ''http://b.com'' 2 1000000 (Some 4),
                    mk_visit ''http://a.com'' 1 1000000 (Some 3),
                    mk_visit ''https://x.com'' 3 1300000 None,
                    mk_visit ''https://y.com'' 4 6000000 None] None))
     = [Info ''b.com'' ''y.com'', Info ''a.com'' ''x.com'', Warning 300]
   \<and> [Info ''b.com'' ''y.com'', Info ''a.com'' ''x.com'', Warning 300]
     \<noteq> [Info ''a.com'' ''x.com'', Warning 300, Info ''b.com'' ''y.com'' :: int effect]"
proof (intro conjI)
  show "mset [mk_visit ''http://b.com'' 2 1000000 (Some 4),
            mk_visit ''http://a.com'' 1 1000000 (Some 3),
            mk_visit ''https://x.com'' 3 1300000 None,
            mk_visit ''https://y.com'' 4 6000000 None]
     = mset [mk_visit ''http://a.com'' 1 1000000 (Some 3),
             mk_visit ''http://b.com'' 2 1000000 (Some 4),
             mk_visit ''https://x.com'' 3 1300000 None,
             mk_visit ''https://y.com'' 4 6000000 None]"
    by (simp add: add_mset_commute)
qed (simp_all add: scenario_defs)

text \<open>
  C9, amended. Any permutation of the history gives the same diagnostics with the same
  multiplicities. When both sequences are ascending by timestamp, the diagnostics are
  identical, order included, provided that no two origins that produce diagnostics share
  a timestamp and that, for each origin, no two of its flagged redirects share a
  timestamp (which unique visit ids already ensure). Ties between other records, and
  ties of a producing origin with a record that produces nothing, do no harm.
\<close>

theorem permuted_history_same_diagnostics:
  fixes xs ys :: "('t::linorder) visit list"
  assumes "mset ys = mset xs"
  shows "mset (effects (find_injections h (s\<lparr>results := ys\<rparr>)))
       = mset (effects (find_injections h (s\<lparr>results := xs\<rparr>)))
    \<and> (sorted (map timestamp xs) \<and> sorted (map timestamp ys)
        \<and> distinct (map timestamp (filter (\<lambda>r. origin_diagnostics h xs r \<noteq> []) xs))
        \<and> (\<forall>r\<in>set xs. distinct (map timestamp
              (filter (\<lambda>q. pair_diagnostics h r (URL_domain h (url r)) q \<noteq> []) xs)))
        \<longrightarrow> effects (find_injections h (s\<lparr>results := ys\<rparr>))
          = effects (find_injections h (s\<lparr>results := xs\<rparr>)))"
proof -
  have "mset (concat (map (origin_diagnostics h ys) ys))
      = (\<Sum>r\<in>#mset ys. mset (origin_diagnostics h ys r))"
    by (rule mset_concat_map)
  also have "\<dots> = (\<Sum>r\<in>#mset xs. mset (origin_diagnostics h xs r))"
    using assms by (simp add: mset_origin_diagnostics [OF assms])
  also have "\<dots> = mset (concat (map (origin_diagnostics h xs) xs))"
    by (rule mset_concat_map [symmetric])
  finally have multiset: "mset (effects (find_injections h (s\<lparr>results := ys\<rparr>)))
       = mset (effects (find_injections h (s\<lparr>results := xs\<rparr>)))"
    by (simp add: find_injections_appends)
  have order: "effects (find_injections h (s\<lparr>results := ys\<rparr>))
          = effects (find_injections h (s\<lparr>results := xs\<rparr>))"
    if sx: "sorted (map timestamp xs)" and sy: "sorted (map timestamp ys)"
      and outer: "distinct (map timestamp (filter (\<lambda>r. origin_diagnostics h xs r \<noteq> []) xs))"
      and inner: "\<forall>r\<in>set xs. distinct (map timestamp
              (filter (\<lambda>q. pair_diagnostics h r (URL_domain h (url r)) q \<noteq> []) xs))"
  proof -
    have same_set: "set ys = set xs"
      using assms by (rule mset_eq_setD)
    have per_origin: "origin_diagnostics h ys r = origin_diagnostics h xs r"
      if r: "r \<in> set xs" for r
    proof -
      let ?f = "pair_diagnostics h r (URL_domain h (url r))"
      have "distinct (map timestamp (filter (\<lambda>q. ?f q \<noteq> []) xs))"
        using inner r by blast
      with assms sx sy have "filter (\<lambda>q. ?f q \<noteq> []) ys = filter (\<lambda>q. ?f q \<noteq> []) xs"
        by (rule sorted_filter_permutation)
      then have "concat (map ?f ys) = concat (map ?f xs)"
        by (rule concat_map_same_emitters)
      then show ?thesis
        by (simp add: origin_diagnostics_unfold)
    qed
    let ?g = "origin_diagnostics h xs"
    have m: "map (origin_diagnostics h ys) ys = map ?g ys"
      using per_origin same_set by simp
    have "filter (\<lambda>r. ?g r \<noteq> []) ys = filter (\<lambda>r. ?g r \<noteq> []) xs"
      using assms sx sy outer by (rule sorted_filter_permutation)
    then have "concat (map ?g ys) = concat (map ?g xs)"
      by (rule concat_map_same_emitters)
    then have "concat (map (origin_diagnostics h ys) ys) = concat (map ?g xs)"
      unfolding m .
    then show ?thesis
      by (simp add: find_injections_appends)
  qed
  show ?thesis using multiset order by blast
qed

text \<open>
  The witness: an origin tied with an unrelated visit; the two orders of the tie are
  different ascending sequences with the identical diagnostics. The two histories of the
  counterexample give the same multiset of lines.
\<close>

theorem permuted_history_same_diagnostics_witness:
  "[mk_visit ''https://n.com'' 2 1000000 None,
    mk_visit ''http://a.com'' 1 1000000 (Some 3),
    mk_visit ''https://x.com'' 3 1300000 None]
   \<noteq> [mk_visit ''http://a.com'' 1 1000000 (Some 3),
       mk_visit ''https://n.com'' 2 1000000 None,
       mk_visit ''https://x.com'' 3 1300000 None]
   \<and> effects (find_injections scenario_helpers
        (mk_module [mk_visit ''http://a.com'' 1 1000000 (Some 3),
                    mk_visit ''https://n.com'' 2 1000000 None,
                    mk_visit ''https://x.com'' 3 1300000 None] None))
     = [Info ''a.com'' ''x.com'', Warning 300]
   \<and> effects (find_injections scenario_helpers
        (mk_module [mk_visit ''https://n.com'' 2 1000000 None,
                    mk_visit ''http://a.com'' 1 1000000 (Some 3),
                    mk_visit ''https://x.com'' 3 1300000 None] None))
     = [Info ''a.com'' ''x.com'', Warning 300]
   \<and> mset (effects (find_injections scenario_helpers
        (mk_module [mk_visit ''http://b.com'' 2 1000000 (Some 4),
                    mk_visit ''http://a.com'' 1 1000000 (Some 3),
                    mk_visit ''https://x.com'' 3 1300000 None,
                    mk_visit ''https://y.com'' 4 6000000 None] None)))
     = mset [Info ''a.com'' ''x.com'', Warning 300, Info ''b.com'' ''y.com'']"
proof -
  let ?a = "mk_visit ''http://a.com'' 1 1000000 (Some 3)"
  let ?n = "mk_visit ''https://n.com'' 2 1000000 None"
  let ?x = "mk_visit ''https://x.com'' 3 1300000 None"
  let ?xs = "[?a, ?n, ?x]"
  let ?ys = "[?n, ?a, ?x]"
  let ?h = scenario_helpers
  let ?s = "mk_module [] None :: int module"
  have differ: "?ys \<noteq> ?xs"
    by (simp add: mk_visit_def)
  have perm: "mset ?ys = mset ?xs"
    by (simp add: add_mset_commute)
  have sx: "sorted (map timestamp ?xs)" and sy: "sorted (map timestamp ?ys)"
    by (simp_all add: mk_visit_def)
  have outer: "distinct (map timestamp (filter (\<lambda>r. origin_diagnostics ?h ?xs r \<noteq> []) ?xs))"
    apply (simp only: filter.simps)
    apply (simp add: origin_diagnostics_unfold pair_diagnostics_nonempty_iff
        mk_visit_def scenario_helpers_def scenario_domain_def lower_def lower_char_def
        startswith_def)
    done
  have inner: "\<forall>r\<in>set ?xs. distinct (map timestamp
      (filter (\<lambda>q. pair_diagnostics ?h r (URL_domain ?h (url r)) q \<noteq> []) ?xs))"
    apply (simp only: list.set ball_simps filter.simps)
    apply (simp add: pair_diagnostics_nonempty_iff
        mk_visit_def scenario_helpers_def scenario_domain_def lower_def lower_char_def)
    done
  have run: "effects (find_injections ?h (mk_module ?xs None))
      = [Info ''a.com'' ''x.com'', Warning 300]"
    by (simp add: scenario_defs)
  have upd: "?s\<lparr>results := ?xs\<rparr> = mk_module ?xs None"
     "?s\<lparr>results := ?ys\<rparr> = mk_module ?ys None"
    by (simp_all add: mk_module_def)
  from permuted_history_same_diagnostics [OF perm, of ?h ?s] sx sy outer inner
  have "effects (find_injections ?h (?s\<lparr>results := ?ys\<rparr>))
      = effects (find_injections ?h (?s\<lparr>results := ?xs\<rparr>))"
    by blast
  then have same: "effects (find_injections ?h (mk_module ?ys None))
      = [Info ''a.com'' ''x.com'', Warning 300]"
    unfolding upd run .
  let ?b = "mk_visit ''http://b.com'' 2 1000000 (Some 4)"
  let ?y = "mk_visit ''https://y.com'' 4 6000000 None"
  let ?us = "[?a, ?b, ?x, ?y]"
  let ?vs = "[?b, ?a, ?x, ?y]"
  have perm2: "mset ?vs = mset ?us"
    by (simp add: add_mset_commute)
  have run2: "effects (find_injections ?h (mk_module ?us None))
      = [Info ''a.com'' ''x.com'', Warning 300, Info ''b.com'' ''y.com'']"
    by (simp add: scenario_defs)
  have upd2: "?s\<lparr>results := ?us\<rparr> = mk_module ?us None"
     "?s\<lparr>results := ?vs\<rparr> = mk_module ?vs None"
    by (simp_all add: mk_module_def)
  from permuted_history_same_diagnostics [OF perm2, of ?h ?s]
  have "mset (effects (find_injections ?h (?s\<lparr>results := ?vs\<rparr>)))
      = mset (effects (find_injections ?h (?s\<lparr>results := ?us\<rparr>)))"
    by (rule conjunct1)
  then have multi: "mset (effects (find_injections ?h (mk_module ?vs None)))
      = mset [Info ''a.com'' ''x.com'', Warning 300, Info ''b.com'' ''y.com'']"
    unfolding upd2 run2 .
  show ?thesis using differ run same multi by (intro conjI)
qed

section \<open>Claims about indicator matching\<close>

text \<open>
  C5. Without an indicator set \<open>check_indicators\<close> is chain analysis alone
  (the early \<open>return\<close> of line 78, not a failure): \<open>detected\<close> keeps its contents, and
  a run that starts with nothing detected ends with nothing detected.
\<close>

theorem no_indicators_is_noop:
  assumes "indicators s = None"
  shows "check_indicators h s = find_injections h s
    \<and> detected (check_indicators h s) = detected s
    \<and> detected (check_indicators h (mk_module rs None)) = []"
proof -
  have "check_indicators h s = find_injections h s"
    using assms by (simp add: check_indicators_def find_injections_appends)
  moreover have "detected (find_injections h s) = detected s"
    by (simp add: find_injections_appends)
  moreover have "detected (check_indicators h (mk_module rs None)) = []"
    by (simp add: check_indicators_def find_injections_appends mk_module_def)
  ultimately show ?thesis by simp
qed

text \<open>
  The witness: scenario B without indicators logs its two lines and detects nothing.
\<close>

theorem no_indicators_is_noop_witness:
  "detected (check_indicators scenario_helpers
      (mk_module [mk_visit ''http://a.com'' 1 0 (Some 2),
                  mk_visit ''https://b.com'' 2 300000 None] None)) = []
   \<and> effects (check_indicators scenario_helpers
      (mk_module [mk_visit ''http://a.com'' 1 0 (Some 2),
                  mk_visit ''https://b.com'' 2 300000 None] None))
     = [Info ''a.com'' ''b.com'', Warning 300]"
proof -
  let ?s = "mk_module [mk_visit ''http://a.com'' 1 0 (Some 2),
                       mk_visit ''https://b.com'' 2 300000 None] None"
  have a: "indicators ?s = None" by (simp add: mk_module_def)
  have b: "detected ?s = []" by (simp add: mk_module_def)
  have c: "effects (find_injections scenario_helpers ?s) = [Info ''a.com'' ''b.com'', Warning 300]"
    by (simp add: scenario_defs)
  from no_indicators_is_noop [OF a, of scenario_helpers "[]"]
  have e: "check_indicators scenario_helpers ?s = find_injections scenario_helpers ?s"
    and d: "detected (check_indicators scenario_helpers ?s) = detected ?s"
    by blast+
  have "detected (check_indicators scenario_helpers ?s) = []"
    using d b by (simp only:)
  moreover have "effects (check_indicators scenario_helpers ?s)
     = [Info ''a.com'' ''b.com'', Warning 300]"
    using c unfolding e .
  ultimately show ?thesis by (rule conjI)
qed

text \<open>
  C6. With an indicator set, \<open>check_indicators\<close> appends to \<open>detected\<close> exactly the
  records whose URL \<open>check_domain\<close> accepts, once each and in the order of the sequence:
  the new part of \<open>detected\<close> is the sequence filtered by the test.
\<close>

theorem detected_is_filter_of_results:
  assumes "indicators s = Some check_domain"
  shows "detected (check_indicators h s)
     = detected s @ filter (\<lambda>r. check_domain (url r)) (results s)"
  using assms by (simp add: check_indicators_def find_injections_appends indicator_loop_appends)

text \<open>
  The witness is scenario E of the specification: one of three records matches.
\<close>

theorem detected_is_filter_of_results_witness:
  "detected (check_indicators scenario_helpers
      (mk_module [mk_visit ''http://a.com'' 1 0 None,
                  mk_visit ''https://bad.com/x'' 2 300000 None,
                  mk_visit ''https://c.com'' 3 900000 None]
         (Some (\<lambda>u. scenario_domain u = ''bad.com''))))
   = [mk_visit ''https://bad.com/x'' 2 300000 None]"
proof -
  let ?chk = "\<lambda>u. scenario_domain u = ''bad.com''"
  let ?rs = "[mk_visit ''http://a.com'' 1 0 None,
              mk_visit ''https://bad.com/x'' 2 300000 None,
              mk_visit ''https://c.com'' 3 900000 None]"
  let ?s = "mk_module ?rs (Some ?chk)"
  have a: "indicators ?s = Some ?chk" by (simp add: mk_module_def)
  have b: "detected ?s @ filter (\<lambda>r. ?chk (url r)) (results ?s)
     = [mk_visit ''https://bad.com/x'' 2 300000 None]"
    by (simp add: scenario_defs)
  show ?thesis
    using detected_is_filter_of_results [OF a, of scenario_helpers] b by simp
qed

text \<open>
  C7. In the trace of \<open>check_indicators\<close> the diagnostics of chain analysis come
  first and the appends to \<open>detected\<close> after them: the trace of chain analysis is the
  old trace followed by diagnostics only, during which nothing is appended, and the
  trace of the whole call is that followed by one append per new detected record.
\<close>

theorem diagnostics_precede_detections:
  "\<exists>ds new.
     effects (find_injections h s) = effects s @ ds
     \<and> (\<forall>e\<in>set ds. is_diagnostic e)
     \<and> detected (find_injections h s) = detected s
     \<and> detected (check_indicators h s) = detected s @ new
     \<and> effects (check_indicators h s) = effects s @ ds @ map Appended new"
proof -
  let ?ds = "concat (map (origin_diagnostics h (results s)) (results s))"
  let ?new = "case indicators s of None \<Rightarrow> []
     | Some chk \<Rightarrow> filter (\<lambda>r. chk (url r)) (results s)"
  have 1: "effects (find_injections h s) = effects s @ ?ds"
    by (simp add: find_injections_appends)
  have 2: "\<forall>e\<in>set ?ds. is_diagnostic e"
    by (auto simp: origin_diagnostics_are_diagnostics)
  have 3: "detected (find_injections h s) = detected s"
    by (simp add: find_injections_appends)
  have 4: "detected (check_indicators h s) = detected s @ ?new"
    by (simp add: check_indicators_def find_injections_appends indicator_loop_appends
        split: option.split)
  have 5: "effects (check_indicators h s) = effects s @ ?ds @ map Appended ?new"
    by (simp add: check_indicators_def find_injections_appends indicator_loop_appends
        split: option.split)
  show ?thesis using 1 2 3 4 5 by blast
qed

text \<open>
  The witness: a flagged origin that also matches the indicator set; its two
  diagnostics come before its append.
\<close>

theorem diagnostics_precede_detections_witness:
  "effects (check_indicators scenario_helpers
      (mk_module [mk_visit ''http://bad.com'' 1 0 (Some 2),
                  mk_visit ''https://b.com'' 2 300000 None]
         (Some (\<lambda>u. scenario_domain u = ''bad.com''))))
   = [Info ''bad.com'' ''b.com'', Warning 300,
      Appended (mk_visit ''http://bad.com'' 1 0 (Some 2))]
   \<and> (\<exists>ds new.
        effects (find_injections scenario_helpers
          (mk_module [mk_visit ''http://bad.com'' 1 0 (Some 2),
                      mk_visit ''https://b.com'' 2 300000 None]
             (Some (\<lambda>u. scenario_domain u = ''bad.com'')))) = ds
        \<and> (\<forall>e\<in>set ds. is_diagnostic e)
        \<and> effects (check_indicators scenario_helpers
          (mk_module [mk_visit ''http://bad.com'' 1 0 (Some 2),
                      mk_visit ''https://b.com'' 2 300000 None]
             (Some (\<lambda>u. scenario_domain u = ''bad.com'')))) = ds @ map Appended new)"
proof -
  let ?s = "mk_module [mk_visit ''http://bad.com'' 1 0 (Some 2),
                       mk_visit ''https://b.com'' 2 300000 None]
             (Some (\<lambda>u. scenario_domain u = ''bad.com''))"
  have a: "effects ?s = []" by (simp add: mk_module_def)
  have b: "effects (check_indicators scenario_helpers ?s)
     = [Info ''bad.com'' ''b.com'', Warning 300,
        Appended (mk_visit ''http://bad.com'' 1 0 (Some 2))]"
    by (simp add: scenario_defs)
  have c: "\<exists>ds new.
        effects (find_injections scenario_helpers ?s) = ds
        \<and> (\<forall>e\<in>set ds. is_diagnostic e)
        \<and> effects (check_indicators scenario_helpers ?s) = ds @ map Appended new"
    using diagnostics_precede_detections [of scenario_helpers ?s] unfolding a
    by (simp only: append_Nil) blast
  show ?thesis using b c by (rule conjI)
qed

end
